theory Spec2Isabelle
  imports Main
begin

section \<open>The command-line front end \<^verbatim>\<open>cli.js\<close>\<close>

text \<open>
  A shallow embedding of \<^verbatim>\<open>src/cli.js\<close>. JavaScript strings are modelled as
  \<^typ>\<open>string\<close>; the only characters the program inspects are the ASCII space, comma,
  semicolon and colon. Host functions the program calls but does not define (\<^verbatim>\<open>Number\<close>,
  \<^verbatim>\<open>camelcase\<close>, the \<^verbatim>\<open>fs\<close> and \<^verbatim>\<open>path\<close> modules, \<^verbatim>\<open>require\<close>, the
  configuration and transform collaborators) are parameters of the model.
\<close>

subsection \<open>Splitting on the constants \<^verbatim>\<open>SPLITTER\<close> and \<^verbatim>\<open>DELIMITER\<close>\<close>

text \<open>
  \<^verbatim>\<open>var SPLITTER = / *[,;] */g;\<close> and \<^verbatim>\<open>var DELIMITER = / *: */;\<close>
  Both expressions have the shape: any number of spaces, one character of a class, any
  number of spaces. A constant is represented by its character class.
\<close>

definition SPLITTER :: "char \<Rightarrow> bool" where
  "SPLITTER c = (c = CHR '','' \<or> c = CHR '';'')"

definition DELIMITER :: "char \<Rightarrow> bool" where
  "DELIMITER c = (c = CHR '':'')"

definition spaces :: "string \<Rightarrow> string" where
  "spaces s = dropWhile (\<lambda>c. c = CHR '' '') s"

text \<open>
  \<open>match_at d s\<close> matches the expression with class \<open>d\<close> at the very start of \<open>s\<close> and
  returns what follows the match. The leading \<^verbatim>\<open> *\<close> is greedy; giving back a space
  never helps, because the class holds no space.
\<close>

definition match_at :: "(char \<Rightarrow> bool) \<Rightarrow> string \<Rightarrow> string option" where
  "match_at d s =
     (case spaces s of
        [] \<Rightarrow> None
      | c # r \<Rightarrow> if d c then Some (spaces r) else None)"

lemma length_spaces: "length (spaces s) \<le> length s"
  by (simp add: spaces_def length_dropWhile_le)

lemma match_at_shorter: "match_at d s = Some r \<Longrightarrow> length r < length s"
proof -
  assume m: "match_at d s = Some r"
  then obtain c r' where sp: "spaces s = c # r'" and r: "r = spaces r'"
    by (auto simp: match_at_def split: list.splits if_splits)
  have "length r \<le> length r'" using r length_spaces by simp
  moreover have "length (c # r') \<le> length s" using sp length_spaces [of s] by simp
  ultimately show ?thesis by simp
qed

text \<open>
  \<^verbatim>\<open>String.prototype.split\<close> with a regular expression: the position \<open>q\<close> moves
  through the string; where the expression matches at \<open>q\<close>, the text since the end of the
  last match is one piece and the search goes on after the match; at the end the rest is
  the last piece. \<open>cur\<close> is the text between the end of the last match and \<open>q\<close>. (A match
  is never empty, so the algorithm's test for an empty match at the end of the last one
  never fires.)
\<close>

function split_from :: "(char \<Rightarrow> bool) \<Rightarrow> string \<Rightarrow> string \<Rightarrow> string list" where
  "split_from d cur [] = [cur]"
| "split_from d cur (c # s) =
     (case match_at d (c # s) of
        Some r \<Rightarrow> cur # split_from d [] r
      | None \<Rightarrow> split_from d (cur @ [c]) s)"
  by pat_completeness auto
termination
  by (relation "measure (\<lambda>(d, cur, s). length s)") (auto dest: match_at_shorter)

definition split :: "(char \<Rightarrow> bool) \<Rightarrow> string \<Rightarrow> string list" where
  "split d s = split_from d [] s"

text \<open>\<^verbatim>\<open>Array.prototype.join\<close> on an array of strings.\<close>

fun array_join :: "string \<Rightarrow> string list \<Rightarrow> string" where
  "array_join sep [] = []"
| "array_join sep [x] = x"
| "array_join sep (x # y # ys) = x @ sep @ array_join sep (y # ys)"

subsection \<open>\<^verbatim>\<open>parseSetting\<close>\<close>

text \<open>
  A setting's value is a boolean, a number or a string. \<^verbatim>\<open>Number(value)\<close> is the host's
  numeric coercion, a parameter \<open>Number\<close> with \<open>None\<close> for \<^verbatim>\<open>NaN\<close>; the test
  \<^verbatim>\<open>Number(value) === Number(value)\<close> fails exactly for \<^verbatim>\<open>NaN\<close>.
\<close>

datatype 'n jsvalue = VBool bool | VNum 'n | VStr string

type_synonym ref = nat
type_synonym 'n object = "string \<rightharpoonup> 'n jsvalue"
type_synonym 'n objects = "ref \<Rightarrow> 'n object"

text \<open>Lines 130 to 136: the coercion of the value.\<close>

definition coerce :: "(string \<Rightarrow> 'n option) \<Rightarrow> string \<Rightarrow> 'n jsvalue" where
  "coerce Number value =
     (if value = ''true'' \<or> value = '''' then VBool True
      else if value = ''false'' then VBool False
      else (case Number value of Some n \<Rightarrow> VNum n | None \<Rightarrow> VStr value))"

text \<open>
  Lines 126 to 128: \<^verbatim>\<open>flag = flag.split(DELIMITER); value = flag.slice(1).join(':')\<close>.
  \<open>flag_name\<close> is \<^verbatim>\<open>flag[0]\<close>: the array \<^verbatim>\<open>split\<close> returns always has a first
  element (lemma \<open>split_not_Nil\<close>).
\<close>

definition flag_name :: "string \<Rightarrow> string" where
  "flag_name flag = hd (split DELIMITER flag)"

definition flag_value :: "string \<Rightarrow> string" where
  "flag_value flag = array_join '':'' (tl (split DELIMITER flag))"

text \<open>
  The body of the \<^verbatim>\<open>forEach\<close> callback. \<open>cache\<close> is a reference to the accumulator
  object and \<open>heap\<close> holds the own properties of every object; the assignment
  \<^verbatim>\<open>cache[camelcase(flag[0])] = value\<close> updates the object in place. (An object is
  the map of its own properties. The one name whose assignment would not make an own
  property is \<^verbatim>\<open>__proto__\<close>; \<^verbatim>\<open>camelcase\<close> removes underscores and does not
  return it.)
\<close>

definition set_flag ::
  "(string \<Rightarrow> string) \<Rightarrow> (string \<Rightarrow> 'n option) \<Rightarrow> ref \<Rightarrow> 'n objects \<Rightarrow> string \<Rightarrow> 'n objects" where
  "set_flag camelcase Number cache heap flag =
     heap(cache := (heap cache)(camelcase (flag_name flag) \<mapsto> coerce Number (flag_value flag)))"

definition parseSetting ::
  "(string \<Rightarrow> string) \<Rightarrow> (string \<Rightarrow> 'n option) \<Rightarrow> string \<Rightarrow> ref \<Rightarrow> 'n objects \<Rightarrow> ref \<times> 'n objects" where
  "parseSetting camelcase Number flags cache heap =
     (cache, foldl (set_flag camelcase Number cache) heap (split SPLITTER flags))"

text \<open>
  \<^verbatim>\<open>.option('-s, --setting <settings>', 'specify settings', parseSetting, {})\<close>: for
  every occurrence of the option, in order, the option framework calls the function with
  the raw argument and the option's current value (at first the default), and keeps what
  it returns.
\<close>

fun option_setting ::
  "(string \<Rightarrow> string) \<Rightarrow> (string \<Rightarrow> 'n option) \<Rightarrow> string list \<Rightarrow> ref \<Rightarrow> 'n objects \<Rightarrow> ref \<times> 'n objects" where
  "option_setting camelcase Number [] cache heap = (cache, heap)"
| "option_setting camelcase Number (flags # rest) cache heap =
     (case parseSetting camelcase Number flags cache heap of
        (cache', heap') \<Rightarrow> option_setting camelcase Number rest cache' heap')"

subsection \<open>\<^verbatim>\<open>parsePlugin\<close>\<close>

text \<open>
  Arrays live in a store of their own: \<open>cells\<close> gives the elements of every array and
  \<open>fresh\<close> is the next unused reference. \<^verbatim>\<open>cache.concat(ware.split(SPLITTER))\<close> builds
  a new array. (The array \<^verbatim>\<open>split\<close> returns is not reachable afterwards and is not
  given a reference.)
\<close>

record arrays =
  cells :: "ref \<Rightarrow> string list"
  fresh :: ref

definition concat_array :: "ref \<Rightarrow> string list \<Rightarrow> arrays \<Rightarrow> ref \<times> arrays" where
  "concat_array a items h =
     (fresh h, h\<lparr>cells := (cells h)(fresh h := cells h a @ items), fresh := Suc (fresh h)\<rparr>)"

definition parsePlugin :: "string \<Rightarrow> ref \<Rightarrow> arrays \<Rightarrow> ref \<times> arrays" where
  "parsePlugin ware cache h = concat_array cache (split SPLITTER ware) h"

text \<open>
  \<^verbatim>\<open>.option('-u, --use <plugins>', 'use transform plugin(s)', parsePlugin, [])\<close>,
  called by the option framework like \<open>option_setting\<close>.
\<close>

fun option_use :: "string list \<Rightarrow> ref \<Rightarrow> arrays \<Rightarrow> ref \<times> arrays" where
  "option_use [] cache h = (cache, h)"
| "option_use (ware # rest) cache h =
     (case parsePlugin ware cache h of (cache', h') \<Rightarrow> option_use rest cache' h')"

subsection \<open>\<^verbatim>\<open>findRoot\<close> and the choice of a plugin's location\<close>

text \<open>
  The file system and the \<^verbatim>\<open>path\<close> module, as the program uses them:
  \<^verbatim>\<open>process.cwd()\<close>, \<^verbatim>\<open>path.sep\<close> (one character), \<^verbatim>\<open>fs.existsSync\<close>,
  \<^verbatim>\<open>path.join\<close> and \<^verbatim>\<open>path.resolve\<close>.
\<close>

record files =
  cwd :: string
  seperator :: char
  exists :: "string \<Rightarrow> bool"
  join :: "string list \<Rightarrow> string"
  resolve :: "string list \<Rightarrow> string"

text \<open>\<^verbatim>\<open>String.prototype.split\<close> with a separator of one character.\<close>

fun split_string :: "char \<Rightarrow> string \<Rightarrow> string \<Rightarrow> string list" where
  "split_string sep cur [] = [cur]"
| "split_string sep cur (c # s) =
     (if c = sep then cur # split_string sep [] s else split_string sep (cur @ [c]) s)"

text \<open>
  The loop of \<^verbatim>\<open>findRoot\<close>: \<^verbatim>\<open>parts.pop()\<close> drops the last part,
  \<^verbatim>\<open>parts.join(seperator)\<close> rebuilds the location.
\<close>

function findRoot_loop :: "files \<Rightarrow> string list \<Rightarrow> string \<Rightarrow> string list \<times> string" where
  "findRoot_loop F parts location =
     (if \<not> exists F (join F [location, ''package.json'']) \<and> length parts > 1
      then findRoot_loop F (butlast parts) (array_join [seperator F] (butlast parts))
      else (parts, location))"
  by pat_completeness auto
termination
  by (relation "measure (\<lambda>(F, parts, location). length parts)") auto

declare findRoot_loop.simps [simp del]

definition findRoot :: "files \<Rightarrow> string" where
  "findRoot F =
     (case findRoot_loop F (split_string (seperator F) [] (cwd F)) (cwd F) of
        (parts, location) \<Rightarrow> if length parts \<noteq> 0 then location else cwd F)"

text \<open>\<^verbatim>\<open>var root = findRoot();\<close>\<close>

definition root :: "files \<Rightarrow> string" where
  "root F = findRoot F"

text \<open>Lines 89 to 102 of \<^verbatim>\<open>find\<close>: the location that will be loaded.\<close>

definition find_candidate :: "files \<Rightarrow> string \<Rightarrow> string" where
  "find_candidate F pathlike =
     (let local = resolve F [root F, pathlike];
          npm = resolve F [root F, ''node_modules'', pathlike];
          current = resolve F [cwd F, ''node_modules'', pathlike]
      in if exists F local \<or> exists F (local @ ''.js'') then local
         else if exists F npm then npm
         else if exists F current then current
         else pathlike)"

subsection \<open>The process and its collaborators\<close>

text \<open>
  A thrown value, as \<^verbatim>\<open>fail\<close> sees it. \<open>Thrown\<close> is a value whose \<^verbatim>\<open>stack\<close> property
  can be read and which can be turned into a string: \<open>stack\<close> is that property when the
  value has one, \<open>message\<close> is the value as a string. \<open>Unprintable\<close> is a value for which
  evaluating \<^verbatim>\<open>(message.stack || message) + '\n'\<close> throws, and \<open>raised\<close> is what is
  thrown then: \<^verbatim>\<open>null\<close> and \<^verbatim>\<open>undefined\<close>, no property of which can be read (a
  \<^verbatim>\<open>TypeError\<close>), and values that cannot be turned into a string.
\<close>

datatype thrown = Thrown (stack: "string option") (message: string) | Unprintable (raised: thrown)

text \<open>
  What the process has done so far. \<open>stdout\<close> and \<open>stderr\<close> list the writes to the two
  streams, \<open>written\<close> the files written, \<open>calls\<close> the calls into the collaborators, in
  order. \<open>Exited n\<close>: \<^verbatim>\<open>process.exit(n)\<close> was called. \<open>Uncaught e\<close>: the exception \<open>e\<close>
  left the program; the host has reported it and ended the process. \<open>Running\<close> once the
  program has nothing left to do: the process ends normally, with status 0.
\<close>

datatype status = Running | Exited nat | Uncaught thrown

datatype call =
    Configure
  | GetConfiguration "string option"
  | Require string
  | Use
  | Parse string
  | Stringify
  | Serialize
  | Read string
  | Write string

record proc =
  stdout :: "string list"
  stderr :: "string list"
  written :: "(string \<times> string) list"
  calls :: "call list"
  status :: status

definition start :: proc where
  "start = \<lparr>stdout = [], stderr = [], written = [], calls = [], status = Running\<rparr>"

fun exit_status :: "status \<Rightarrow> nat option" where
  "exit_status Running = Some 0"
| "exit_status (Exited n) = Some n"
| "exit_status (Uncaught e) = None"

text \<open>
  The options as the option framework leaves them on \<^verbatim>\<open>program\<close>. \<open>setting\<close> is the
  settings object, which the program only hands on.
\<close>

record 's program =
  output' :: "string option"
  config :: "string option"
  setting :: 's
  use :: "string list"
  ast :: bool
  settings :: bool
  args :: "string list"

text \<open>An argument of \<^verbatim>\<open>debug\<close>.\<close>

datatype 's shown = Text string | Names "string list" | Settings 's

text \<open>
  The host and the collaborators: \<^verbatim>\<open>stdin\<close> (\<open>isTTY\<close>, and the chunks its
  \<^verbatim>\<open>data\<close> events deliver), \<^verbatim>\<open>fs.readFile\<close> and \<^verbatim>\<open>fs.writeFile\<close>,
  \<^verbatim>\<open>require\<close>, the \<^verbatim>\<open>Configuration\<close> class, the transform engine \<^verbatim>\<open>mdast\<close>,
  \<^verbatim>\<open>JSON.stringify\<close>, what \<^verbatim>\<open>debug\<close> prints (nothing unless tracing is switched
  on), the usage text of the option framework and the command's name. A call that can
  throw returns a sum, \<open>Inl\<close> the thrown value. For an exception that nothing catches,
  \<open>uncaught_lines\<close> is what the host writes to standard error and \<open>uncaught_code\<close> the
  status with which it then ends the process: never 0; 1 on current versions of the
  host, 8 on node 0.10, the version the comment on \<^verbatim>\<open>fail\<close> speaks of.
\<close>

record ('s, 'p, 'c, 'e, 'd) host =
  isTTY :: bool
  chunks :: "string list"
  readFile :: "string \<Rightarrow> thrown + string"
  writeFile :: "string \<Rightarrow> string \<Rightarrow> thrown option"
  require :: "string \<Rightarrow> thrown + 'p"
  Configuration :: "string option \<Rightarrow> 's \<Rightarrow> string list \<Rightarrow> thrown + 'c"
  getConfiguration :: "'c \<Rightarrow> string option \<Rightarrow> thrown + ('s \<times> string list)"
  mdast_use :: "'p list \<Rightarrow> thrown + 'e"
  parse :: "'e \<Rightarrow> string \<Rightarrow> 's \<Rightarrow> thrown + 'd"
  stringify :: "'e \<Rightarrow> 'd \<Rightarrow> 's \<Rightarrow> thrown + string"
  JSON_stringify :: "'d \<Rightarrow> thrown + string"
  debug_lines :: "string \<Rightarrow> 's shown list \<Rightarrow> string list"
  helpInformation :: string
  command :: string
  uncaught_lines :: "thrown \<Rightarrow> string list"
  uncaught_code :: nat

text \<open>The status with which the process ends.\<close>

fun exit_code :: "('s, 'p, 'c, 'e, 'd) host \<Rightarrow> status \<Rightarrow> nat" where
  "exit_code H Running = 0"
| "exit_code H (Exited n) = n"
| "exit_code H (Uncaught e) = uncaught_code H"

definition newline :: string where
  "newline = [CHR 0x0A]"

text \<open>
  \<^verbatim>\<open>(message.stack || message)\<close>: the stack when the value has one that is not empty,
  otherwise the value itself; \<open>Inl\<close> when evaluating it throws.
\<close>

fun diagnostic :: "thrown \<Rightarrow> thrown + string" where
  "diagnostic (Thrown None raw) = Inr raw"
| "diagnostic (Thrown (Some trace) raw) = Inr (if trace \<noteq> [] then trace else raw)"
| "diagnostic (Unprintable e) = Inl e"

text \<open>An exception leaves the program: the host reports it and ends the process.\<close>

definition uncaught :: "('s, 'p, 'c, 'e, 'd) host \<Rightarrow> thrown \<Rightarrow> proc \<Rightarrow> proc" where
  "uncaught H e st = st\<lparr>stderr := stderr st @ uncaught_lines H e, status := Uncaught e\<rparr>"

text \<open>
  \<^verbatim>\<open>fail\<close>: \<^verbatim>\<open>stderr.write((message.stack || message) + '\n'); process.exit(1);\<close>
  Where the argument of \<^verbatim>\<open>write\<close> cannot be evaluated, what that throws leaves
  \<^verbatim>\<open>fail\<close>; no caller of \<^verbatim>\<open>fail\<close> stands in a \<^verbatim>\<open>try\<close> that would catch it.
\<close>

definition fail :: "('s, 'p, 'c, 'e, 'd) host \<Rightarrow> thrown \<Rightarrow> proc \<Rightarrow> proc" where
  "fail H e st =
     (case diagnostic e of
        Inl thrown_here \<Rightarrow> uncaught H thrown_here st
      | Inr shown \<Rightarrow> st\<lparr>stderr := stderr st @ [shown @ newline], status := Exited 1\<rparr>)"

definition called :: "call \<Rightarrow> proc \<Rightarrow> proc" where
  "called c st = st\<lparr>calls := calls st @ [c]\<rparr>"

definition debug :: "('s, 'p, 'c, 'e, 'd) host \<Rightarrow> string \<Rightarrow> 's shown list \<Rightarrow> proc \<Rightarrow> proc" where
  "debug H format shown st = st\<lparr>stderr := stderr st @ debug_lines H format shown\<rparr>"

definition console_log :: "string \<Rightarrow> proc \<Rightarrow> proc" where
  "console_log line st = st\<lparr>stdout := stdout st @ [line @ newline]\<rparr>"

text \<open>
  A program value is truthy: \<^verbatim>\<open>null\<close> and the empty string are not.
\<close>

fun truthy :: "string option \<Rightarrow> bool" where
  "truthy None = False"
| "truthy (Some s) = (s \<noteq> [])"

subsection \<open>\<^verbatim>\<open>find\<close>\<close>

text \<open>
  \<open>Inl\<close> is the state of a process that has ended, \<open>Inr\<close> a result with the state of a
  process that goes on.
\<close>

definition find_plugin ::
  "files \<Rightarrow> ('s, 'p, 'c, 'e, 'd) host \<Rightarrow> string \<Rightarrow> proc \<Rightarrow> proc + ('p \<times> proc)" where
  \<open>find_plugin F H pathlike st =
     (let plugin = find_candidate F pathlike;
          st1 = debug H ''Using plugin `%s` at `%s`'' [Text pathlike, Text plugin] st;
          st2 = called (Require plugin) st1
      in case require H plugin of
           Inl exception \<Rightarrow> Inl (fail H exception st2)
         | Inr loaded \<Rightarrow> Inr (loaded, st2))\<close>

text \<open>\<^verbatim>\<open>options.plugins.map(find)\<close>\<close>

fun map_find ::
  "files \<Rightarrow> ('s, 'p, 'c, 'e, 'd) host \<Rightarrow> string list \<Rightarrow> proc \<Rightarrow> proc + ('p list \<times> proc)" where
  "map_find F H [] st = Inr ([], st)"
| "map_find F H (pathlike # rest) st =
     (case find_plugin F H pathlike st of
        Inl st' \<Rightarrow> Inl st'
      | Inr (plugin, st') \<Rightarrow>
          (case map_find F H rest st' of
             Inl st'' \<Rightarrow> Inl st''
           | Inr (plugins, st'') \<Rightarrow> Inr (plugin # plugins, st'')))"

subsection \<open>\<^verbatim>\<open>run\<close>\<close>

text \<open>
  Lines 286 to 298: the document goes to the file \<^verbatim>\<open>program.output\<close> or to standard
  output. The callback of \<^verbatim>\<open>fs.writeFile\<close> is run as soon as the write is done.
\<close>

definition write_out :: "'s program \<Rightarrow> ('s, 'p, 'c, 'e, 'd) host \<Rightarrow> string \<Rightarrow> proc \<Rightarrow> proc" where
  \<open>write_out P H doc st =
     (if truthy (output' P) then
        (let out = the (output' P);
             st1 = called (Write out) (debug H ''Writing document to `%s`'' [Text out] st)
         in case writeFile H out doc of
              Some exception \<Rightarrow> fail H exception st1
            | None \<Rightarrow> st1\<lparr>written := written st1 @ [(out, doc)]\<rparr>)
      else
        (let st1 = debug H ''Writing document to standard out'' [] st
         in st1\<lparr>stdout := stdout st1 @ [doc]\<rparr>))\<close>

text \<open>
  \<^verbatim>\<open>run(value, filename)\<close>. The calls to \<^verbatim>\<open>new Configuration\<close> and to
  \<^verbatim>\<open>parser.parse\<close> stand in a \<^verbatim>\<open>try\<close> whose handler is \<^verbatim>\<open>fail\<close>; the calls to
  \<^verbatim>\<open>getConfiguration\<close>, \<^verbatim>\<open>parser.use\<close>, \<^verbatim>\<open>JSON.stringify\<close> and
  \<^verbatim>\<open>parser.stringify\<close> do not.
\<close>

definition run ::
  "files \<Rightarrow> 's program \<Rightarrow> ('s, 'p, 'c, 'e, 'd) host \<Rightarrow> string \<Rightarrow> string option \<Rightarrow> proc \<Rightarrow> proc" where
  \<open>run F P H value filename st =
     (case Configuration H (config P) (setting P) (use P) of
        Inl exception \<Rightarrow> fail H exception (called Configure st)
      | Inr configuration \<Rightarrow>
     (case getConfiguration H configuration filename of
        Inl exception \<Rightarrow>
          uncaught H exception (called (GetConfiguration filename) (called Configure st))
      | Inr (options_settings, options_plugins) \<Rightarrow>
     (case map_find F H options_plugins
             (debug H ''Using settings `%j`'' [Settings options_settings]
               (called (GetConfiguration filename) (called Configure st))) of
        Inl st' \<Rightarrow> st'
      | Inr (plugins, st1) \<Rightarrow>
     (case mdast_use H plugins of
        Inl exception \<Rightarrow> uncaught H exception (called Use st1)
      | Inr parser \<Rightarrow>
     (let st2 = called (Parse value)
                  (debug H ''Using plug-ins `%j`'' [Names options_plugins] (called Use st1))
      in case parse H parser value options_settings of
        Inl exception \<Rightarrow> fail H exception st2
      | Inr doc \<Rightarrow>
     (if ast P then
        (case JSON_stringify H doc of
           Inl exception \<Rightarrow> uncaught H exception (called Serialize st2)
         | Inr shown \<Rightarrow> write_out P H shown (called Serialize st2))
      else
        (case stringify H parser doc options_settings of
           Inl exception \<Rightarrow> uncaught H exception (called Stringify st2)
         | Inr shown \<Rightarrow> write_out P H shown (called Stringify st2))))))))\<close>

subsection \<open>The program\<close>

text \<open>The listeners for \<^verbatim>\<open>--help\<close> (lines 174 to 191) and \<^verbatim>\<open>--settings\<close> (193 to 233).\<close>

definition help_lines :: "string \<Rightarrow> string list" where
  \<open>help_lines cmd =
     [''  # Note that bash does not allow reading and writing'',
      ''  # to the same file through pipes'',
      '''',
      ''  Usage:'',
      '''',
      ''  # Pass `Readme.md` through mdast'',
      ''  $ '' @ cmd @ '' Readme.md -o Readme.md'',
      '''',
      ''  # Pass stdin through mdast, with settings, to stdout'',
      ''  $ cat Readme.md | '' @ cmd @ '' --setting '' @ ''"setext, bullet: *" > Readme-new.md'',
      '''',
      ''  # use a plugin'',
      ''  $ npm install mdast-toc'',
      ''  $ '' @ cmd @ '' --use mdast-toc -o Readme.md'',
      '''']\<close>

definition settings_lines :: "string \<Rightarrow> string list" where
  \<open>settings_lines cmd =
     ['''',
      ''  # Settings'',
      '''',
      ''  Both camel- and dash-cased settings are allowed.'',
      '''',
      ''  ## [Parse](https://github.com/wooorm/mdast#'' @ ''mdastparsevalue-options)'',
      '''',
      ''  -  `gfm` (boolean, default: true)'',
      ''  -  `yaml` (boolean, default: true)'',
      ''  -  `pedantic` (boolean, default: false)'',
      ''  -  `commonmark` (boolean, default: false)'',
      ''  -  `breaks` (boolean, default: false)'',
      ''  -  `footnotes` (boolean, default: false)'',
      '''',
      ''  ## [Stringify](https://github.com/wooorm/mdast#'' @ ''mdaststringifyast-options)'',
      '''',
      ''  -  `setext` (boolean, default: false)'',
      ''  -  `close-atx` (boolean, default: false)'',
      ''  -  `loose-table` (boolean, default: false)'',
      ''  -  `spaced-table` (boolean, default: true)'',
      ''  -  `reference-links` (boolean, default: false)'',
      ''  -  `fences` (boolean, default: false)'',
      ''  -  `bullet` ("-", "*", or "+", default: "-")'',
      ''  -  `rule` ("-", "*", or "_", default: "*")'',
      ''  -  `rule-repetition` (number, default: 3)'',
      ''  -  `rule-spaces` (boolean, default: false)'',
      ''  -  `strong` ("_", or "*", default: "*")'',
      ''  -  `emphasis` ("_", or "*", default: "_")'',
      '''',
      ''  Settings are specified as follows:'',
      '''',
      ''    $ '' @ cmd @ '' --setting "name:value"'',
      '''',
      ''  Multiple settings:'',
      '''',
      ''    $ '' @ cmd @ '' --setting "emphasis:*,strong:_"'',
      '''']\<close>

text \<open>\<^verbatim>\<open>program.emit\<close> runs the listener: one \<^verbatim>\<open>console.log\<close> for each line.\<close>

definition emit :: "string list \<Rightarrow> proc \<Rightarrow> proc" where
  "emit lines st = foldl (\<lambda>st line. console_log line st) st lines"

text \<open>
  \<^verbatim>\<open>program.outputHelp()\<close> of the option framework: it writes its usage text to
  standard output and emits \<^verbatim>\<open>--help\<close>.
\<close>

definition outputHelp :: "('s, 'p, 'c, 'e, 'd) host \<Rightarrow> proc \<Rightarrow> proc" where
  "outputHelp H st = emit (help_lines (command H)) (st\<lparr>stdout := stdout st @ [helpInformation H]\<rparr>)"

definition ENCODING :: string where
  "ENCODING = ''utf-8''"

text \<open>
  Lines 306 to 320: the files to read, unless the invocation is refused.
  \<^verbatim>\<open>expextPipeIn\<close> is \<^verbatim>\<open>!stdin.isTTY\<close>.
\<close>

definition choose_files ::
  "'s program \<Rightarrow> ('s, 'p, 'c, 'e, 'd) host \<Rightarrow> proc \<Rightarrow> proc + (string list \<times> proc)" where
  \<open>choose_files P H st =
     (let files = args P; expextPipeIn = \<not> isTTY H
      in if \<not> expextPipeIn \<and> files = [] then
           (if truthy (output' P) then
              Inr (files @ [the (output' P)],
                   debug H ''Using output `%s` as input'' [Text (the (output' P))] st)
            else Inl ((outputHelp H st)\<lparr>status := Exited 1\<rparr>))
         else if (expextPipeIn \<and> files \<noteq> []) \<or> (\<not> expextPipeIn \<and> length files \<noteq> 1) then
           Inl (fail H (Thrown None ''mdast currently expects one file.'') st)
         else Inr (files, st))\<close>

text \<open>\<^verbatim>\<open>stdin.on('data', run)\<close>: one call of \<^verbatim>\<open>run\<close> for each chunk, while the process lives.\<close>

fun on_data ::
  "files \<Rightarrow> 's program \<Rightarrow> ('s, 'p, 'c, 'e, 'd) host \<Rightarrow> string list \<Rightarrow> proc \<Rightarrow> proc" where
  "on_data F P H [] st = st"
| "on_data F P H (chunk # rest) st =
     (let st' = run F P H chunk None st
      in if status st' = Running then on_data F P H rest st' else st')"

text \<open>The program from line 241 on, after the options have been parsed.\<close>

definition main :: "files \<Rightarrow> 's program \<Rightarrow> ('s, 'p, 'c, 'e, 'd) host \<Rightarrow> proc" where
  \<open>main F P H =
     (let st0 = debug H ''Using root: `%s`'' [Text (root F)] start
      in if settings P then emit (settings_lines (command H)) st0
         else
           (case choose_files P H st0 of
              Inl st \<Rightarrow> st
            | Inr (files, st) \<Rightarrow>
                (case map (\<lambda>filename. resolve F [filename]) files of
                   [] \<Rightarrow> on_data F P H (chunks H) st
                 | file # others \<Rightarrow>
                     if file \<noteq> [] then
                       (let st1 = called (Read file)
                                    (debug H ''Reading from `%s` using encoding `%s`''
                                       [Text file, Text ENCODING] st)
                        in case readFile H file of
                             Inl exception \<Rightarrow> fail H exception st1
                           | Inr value \<Rightarrow> run F P H value (Some file) st1)
                     else on_data F P H (chunks H) st)))\<close>

subsection \<open>Notions used to state the properties\<close>


text \<open>What one entry stores: the key and the value.\<close>

definition stored :: "(string \<Rightarrow> string) \<Rightarrow> (string \<Rightarrow> 'n option) \<Rightarrow> string \<Rightarrow> string \<times> 'n jsvalue" where
  "stored camelcase Number flag = (camelcase (flag_name flag), coerce Number (flag_value flag))"

text \<open>The entries of all the raw strings of the \<^verbatim>\<open>--setting\<close> options, in order.\<close>

definition all_flags :: "string list \<Rightarrow> string list" where
  "all_flags raws = concat (map (split SPLITTER) raws)"

text \<open>
  A sample numeric coercion for the examples: it reads strings of decimal digits, and
  nothing else.
\<close>

definition digit :: "char \<Rightarrow> nat option" where
  "digit c =
     (let n = (of_char c :: nat) in if 48 \<le> n \<and> n \<le> 57 then Some (n - 48) else None)"

fun decimal_from :: "nat \<Rightarrow> string \<Rightarrow> nat option" where
  "decimal_from acc [] = Some acc"
| "decimal_from acc (c # s) =
     (case digit c of None \<Rightarrow> None | Some k \<Rightarrow> decimal_from (10 * acc + k) s)"

definition decimal :: "string \<Rightarrow> nat option" where
  "decimal s = (if s = [] then None else decimal_from 0 s)"

text \<open>
  What reaches standard error when \<^verbatim>\<open>fail\<close> is called with \<open>e\<close>: the line
  \<^verbatim>\<open>fail\<close> writes or, where \<^verbatim>\<open>fail\<close> itself throws, the host's report of that.
\<close>

definition reported :: "('s, 'p, 'c, 'e, 'd) host \<Rightarrow> thrown \<Rightarrow> string list" where
  "reported H e =
     (case diagnostic e of
        Inl thrown_here \<Rightarrow> uncaught_lines H thrown_here
      | Inr shown \<Rightarrow> [shown @ newline])"

text \<open>The state a call of \<open>find_plugin\<close> or \<open>map_find\<close> leaves.\<close>

definition state_after :: "proc + ('a \<times> proc) \<Rightarrow> proc" where
  "state_after r = (case r of Inl st \<Rightarrow> st | Inr (x, st) \<Rightarrow> st)"

text \<open>A plugin loads when \<^verbatim>\<open>require\<close> of its chosen location does not throw.\<close>

definition loads :: "files \<Rightarrow> ('s, 'p, 'c, 'e, 'd) host \<Rightarrow> string \<Rightarrow> bool" where
  "loads F H pathlike =
     (case require H (find_candidate F pathlike) of Inl e \<Rightarrow> False | Inr x \<Rightarrow> True)"

definition requires :: "files \<Rightarrow> string list \<Rightarrow> call list" where
  "requires F pathlikes = map (\<lambda>p. Require (find_candidate F p)) pathlikes"



text \<open>
  Samples for the examples. \<open>posix\<close> is a file system with the working directory \<open>dir\<close>
  in which exactly the paths satisfying \<open>present\<close> exist; its \<open>join\<close> and \<open>resolve\<close>
  put segments together with slashes (the examples need no further normalising).
  \<open>plain\<close> is a host whose collaborators hand their input on and never throw, with
  tracing switched off, which ends the process with status 1 on an uncaught exception;
  \<open>bare\<close> is the program without any option or argument.
\<close>

fun squeeze :: "string \<Rightarrow> string" where
  "squeeze (a # b # s) = (if a = CHR ''/'' \<and> b = CHR ''/'' then squeeze (b # s) else a # squeeze (b # s))"
| "squeeze s = s"

definition posix_join :: "string list \<Rightarrow> string" where
  "posix_join segments = squeeze (array_join ''/'' (filter (\<lambda>s. s \<noteq> []) segments))"

definition posix_resolve :: "string \<Rightarrow> string list \<Rightarrow> string" where
  "posix_resolve dir segments =
     squeeze (foldl (\<lambda>acc seg. if seg = [] then acc
                              else if hd seg = CHR ''/'' then seg
                              else acc @ ''/'' @ seg) dir segments)"

definition posix :: "string \<Rightarrow> (string \<Rightarrow> bool) \<Rightarrow> files" where
  "posix dir present =
     \<lparr>cwd = dir, seperator = CHR ''/'', exists = present, join = posix_join,
      resolve = posix_resolve dir\<rparr>"

definition plain :: "(unit, string, string list, string list, string) host" where
  "plain =
     \<lparr>isTTY = True, chunks = [],
      readFile = (\<lambda>path. Inr ''text''),
      writeFile = (\<lambda>path doc. None),
      require = (\<lambda>path. Inr path),
      Configuration = (\<lambda>file s plugins. Inr plugins),
      getConfiguration = (\<lambda>configuration filename. Inr ((), configuration)),
      mdast_use = (\<lambda>plugins. Inr plugins),
      parse = (\<lambda>parser value s. Inr value),
      stringify = (\<lambda>parser doc s. Inr doc),
      JSON_stringify = (\<lambda>doc. Inr doc),
      debug_lines = (\<lambda>format shown. []),
      helpInformation = ''Usage: mdast [options] file'',
      command = ''mdast'',
      uncaught_lines = (\<lambda>e. [''Uncaught exception'' @ newline]),
      uncaught_code = 1\<rparr>"

definition bare :: "unit program" where
  "bare = \<lparr>output' = None, config = None, setting = (), use = [], ast = False,
           settings = False, args = []\<rparr>"

text \<open>
  More samples. \<open>both_exist\<close>: in the project root \<^verbatim>\<open>/w\<close>, also the working directory,
  \<^verbatim>\<open>plug.js\<close> and \<^verbatim>\<open>node_modules/plug\<close> exist. \<open>broken\<close>: loading \<^verbatim>\<open>/w/plug\<close>
  throws. \<open>piped\<close>: standard input is a pipe. \<open>with_plugins\<close> and \<open>with_file\<close>:
  programs with three plugins, and with one file argument.
\<close>

definition both_exist :: files where
  "both_exist = posix ''/w''
     (\<lambda>p. p = ''/w/package.json'' \<or> p = ''/w/plug.js'' \<or> p = ''/w/node_modules/plug'')"

definition broken :: "(unit, string, string list, string list, string) host" where
  "broken = plain\<lparr>require :=
     (\<lambda>path. if path = ''/w/plug'' then Inl (Thrown (Some ''Error: broken'') ''Error: broken'')
              else Inr path)\<rparr>"

definition piped :: "(unit, string, string list, string list, string) host" where
  "piped = plain\<lparr>isTTY := False, chunks := [''text'']\<rparr>"

definition with_plugins :: "unit program" where
  "with_plugins = bare\<lparr>use := [''first'', ''plug'', ''last'']\<rparr>"

definition with_file :: "unit program" where
  "with_file = bare\<lparr>args := [''file.md'']\<rparr>"


text \<open>
  \<open>throws_null\<close>: node 0.10, where the module \<^verbatim>\<open>/w/plug\<close> runs \<^verbatim>\<open>throw null\<close>
  when it is loaded. \<open>no_stack_of_null\<close> is the \<^verbatim>\<open>TypeError\<close> of the host for reading
  \<^verbatim>\<open>null.stack\<close>.
\<close>

definition no_stack_of_null :: thrown where
  "no_stack_of_null =
     Thrown (Some ''TypeError: Cannot read property stack of null'')
       ''TypeError: Cannot read property stack of null''"

definition throws_null :: "(unit, string, string list, string list, string) host" where
  "throws_null = plain\<lparr>require :=
       (\<lambda>path. if path = ''/w/plug'' then Inl (Unprintable no_stack_of_null) else Inr path),
     uncaught_code := 8\<rparr>"

subsection \<open>Facts about splitting\<close>

lemma split_from_not_Nil: "split_from d cur s \<noteq> []"
  by (induction d cur s rule: split_from.induct) (auto split: option.splits)

lemma split_not_Nil: "split d s \<noteq> []"
  by (simp add: split_def split_from_not_Nil)

lemma spaces_Nil [simp]: "spaces [] = []"
  by (simp add: spaces_def)











lemma foldl_set_flag:
  "foldl (set_flag camelcase Number cache) heap flags =
     heap(cache := heap cache ++ map_of (rev (map (stored camelcase Number) flags)))"
proof (induction flags arbitrary: heap)
  case Nil
  then show ?case by simp
next
  case (Cons f fs)
  show ?case
    by (simp add: Cons.IH)
      (simp add: set_flag_def stored_def map_add_def fun_eq_iff split: option.splits)
qed

lemma option_setting_fold:
  "option_setting camelcase Number raws cache heap =
     (cache, foldl (set_flag camelcase Number cache) heap (all_flags raws))"
  by (induction raws arbitrary: heap) (simp_all add: all_flags_def parseSetting_def)

lemma option_use_cells:
  "cells (snd (option_use wares cache h)) (fst (option_use wares cache h))
     = cells h cache @ concat (map (split SPLITTER) wares)"
  by (induction wares arbitrary: cache h) (simp_all add: parsePlugin_def concat_array_def)

subsection \<open>The settings parser\<close>

text \<open>
  Claim C1. The value of an entry is coerced by these rules, in this order, each an exact
  and case-sensitive comparison: the empty string and \<^verbatim>\<open>true\<close> give the boolean true;
  \<^verbatim>\<open>false\<close> gives the boolean false; any other value that the numeric coercion accepts
  (its result is not \<^verbatim>\<open>NaN\<close>) gives that number; every other value stays the string it
  is. Every entry stores the coerced value under its camel-cased name. So
  \<^verbatim>\<open>Footnotes:TRUE\<close> stores the string \<^verbatim>\<open>TRUE\<close> (where \<^verbatim>\<open>Number("TRUE")\<close> is
  \<^verbatim>\<open>NaN\<close>), and \<^verbatim>\<open>ruleRepetition:3\<close> stores the number that \<^verbatim>\<open>Number("3")\<close> is.
\<close>

theorem coercion_rules:
  "coerce Number '''' = VBool True
   \<and> coerce Number ''true'' = VBool True
   \<and> coerce Number ''false'' = VBool False
   \<and> (v \<noteq> '''' \<and> v \<noteq> ''true'' \<and> v \<noteq> ''false'' \<longrightarrow>
        coerce Number v = (case Number v of Some n \<Rightarrow> VNum n | None \<Rightarrow> VStr v))
   \<and> set_flag camelcase Number cache heap flag cache (camelcase (flag_name flag))
        = Some (coerce Number (flag_value flag))
   \<and> (Number ''TRUE'' = None \<longrightarrow>
        snd (parseSetting camelcase Number ''Footnotes:TRUE'' cache heap) cache (camelcase ''Footnotes'')
          = Some (VStr ''TRUE''))
   \<and> (Number ''3'' = Some three \<longrightarrow>
        snd (parseSetting camelcase Number ''ruleRepetition:3'' cache heap) cache
          (camelcase ''ruleRepetition'')
          = Some (VNum three))"
  by (simp add: coerce_def set_flag_def parseSetting_def flag_name_def flag_value_def
      split_def match_at_def spaces_def SPLITTER_def DELIMITER_def)

theorem coercion_rules_witness:
  "snd (parseSetting (\<lambda>s. s) decimal ''Footnotes:TRUE'' 0 (\<lambda>r. Map.empty)) 0 ''Footnotes''
     = Some (VStr ''TRUE'')
   \<and> snd (parseSetting (\<lambda>s. s) decimal ''ruleRepetition:3'' 0 (\<lambda>r. Map.empty)) 0 ''ruleRepetition''
     = Some (VNum 3)
   \<and> coerce decimal ''False'' = VStr ''False''"
  using coercion_rules [of decimal "''False''" "\<lambda>s. s" 0 "\<lambda>r. Map.empty" "''x''" 3]
  by (simp add: decimal_def digit_def)

text \<open>
  Claim C5. However many \<^verbatim>\<open>--setting\<close> options are given, the accumulator returned is
  the object that was passed in, updated in place, and no other object changes. For every
  key the value stored last wins, across options and within one raw string: an entry
  after which no later entry has the same key decides the value of its key, and a key no
  entry names keeps its value. \<^verbatim>\<open>--setting "a:1" --setting "a:2"\<close> on an empty object
  leaves exactly the key \<^verbatim>\<open>a\<close>, with the value of \<^verbatim>\<open>2\<close>.
\<close>

theorem settings_last_write_wins:
  "fst (option_setting camelcase Number raws cache heap) = cache
   \<and> snd (option_setting camelcase Number raws cache heap) cache
        = heap cache ++ map_of (rev (map (stored camelcase Number) (all_flags raws)))
   \<and> (\<forall>r. r \<noteq> cache \<longrightarrow> snd (option_setting camelcase Number raws cache heap) r = heap r)
   \<and> (all_flags raws = before @ flag # after
        \<and> (\<forall>f \<in> set after. camelcase (flag_name f) \<noteq> camelcase (flag_name flag)) \<longrightarrow>
        snd (option_setting camelcase Number raws cache heap) cache (camelcase (flag_name flag))
          = Some (coerce Number (flag_value flag)))
   \<and> ((\<forall>f \<in> set (all_flags raws). camelcase (flag_name f) \<noteq> k) \<longrightarrow>
        snd (option_setting camelcase Number raws cache heap) cache k = heap cache k)
   \<and> snd (option_setting camelcase Number [''a:1'', ''a:2''] cache (\<lambda>r. Map.empty)) cache
        = [camelcase ''a'' \<mapsto> coerce Number ''2'']"
proof -
  let ?kv = "stored camelcase Number"
  let ?S = "snd (option_setting camelcase Number raws cache heap)"
  have S: "?S = heap(cache := heap cache ++ map_of (rev (map ?kv (all_flags raws))))"
    by (simp add: option_setting_fold foldl_set_flag)
  have c1: "fst (option_setting camelcase Number raws cache heap) = cache"
    by (simp add: option_setting_fold)
  have c2: "?S cache = heap cache ++ map_of (rev (map ?kv (all_flags raws)))"
    by (simp add: S)
  have c3: "\<forall>r. r \<noteq> cache \<longrightarrow> ?S r = heap r"
    by (simp add: S)
  have c4: "?S cache (camelcase (flag_name flag)) = Some (coerce Number (flag_value flag))"
    if eq: "all_flags raws = before @ flag # after"
      and later: "\<forall>f \<in> set after. camelcase (flag_name f) \<noteq> camelcase (flag_name flag)"
  proof -
    have "map_of (rev (map ?kv after)) (camelcase (flag_name flag)) = None"
      using later by (force simp: map_of_eq_None_iff stored_def)
    then show ?thesis
      by (simp add: c2 eq map_add_def stored_def)
  qed
  have c5: "?S cache k = heap cache k"
    if "\<forall>f \<in> set (all_flags raws). camelcase (flag_name f) \<noteq> k"
  proof -
    have "map_of (rev (map ?kv (all_flags raws))) k = None"
      using that by (force simp: map_of_eq_None_iff stored_def)
    then show ?thesis by (simp add: c2 map_add_def)
  qed
  have flags: "all_flags [''a:1'', ''a:2''] = [''a:1'', ''a:2'']"
    by (simp add: all_flags_def split_def match_at_def spaces_def SPLITTER_def)
  have c6: "snd (option_setting camelcase Number [''a:1'', ''a:2''] cache (\<lambda>r. Map.empty)) cache
        = [camelcase ''a'' \<mapsto> coerce Number ''2'']"
    by (simp add: option_setting_fold flags set_flag_def flag_name_def flag_value_def
        split_def match_at_def spaces_def DELIMITER_def)
  show ?thesis
    using c1 c2 c3 c4 c5 c6 by blast
qed

theorem settings_last_write_wins_witness:
  "snd (option_setting (\<lambda>s. s) decimal [''a:1'', ''a:2''] 0 (\<lambda>r. Map.empty)) 0 = [''a'' \<mapsto> VNum 2]
   \<and> fst (option_setting (\<lambda>s. s) decimal [''a:1'', ''a:2''] 0 (\<lambda>r. Map.empty)) = 0
   \<and> snd (option_setting (\<lambda>s. s) decimal [''b:x, a:1; a'', ''c: false''] 0 (\<lambda>r. Map.empty)) 0 ''a''
        = Some (VBool True)"
proof -
  have f: "all_flags [''b:x, a:1; a'', ''c: false''] = [''b:x'', ''a:1''] @ ''a'' # [''c: false'']"
    by (simp add: all_flags_def split_def match_at_def spaces_def SPLITTER_def)
  have n: "\<forall>f \<in> set [''c: false'']. flag_name f \<noteq> flag_name ''a''"
    by (simp add: flag_name_def split_def match_at_def spaces_def DELIMITER_def)
  have v: "coerce decimal (flag_value ''a'') = VBool True" "flag_name ''a'' = ''a''"
    by (simp_all add: coerce_def flag_value_def flag_name_def split_def match_at_def spaces_def
        DELIMITER_def)
  have c: "coerce decimal ''2'' = VNum 2"
    by (simp add: coerce_def decimal_def digit_def)
  have "snd (option_setting (\<lambda>s. s) decimal [''a:1'', ''a:2''] 0 (\<lambda>r. Map.empty)) 0
          = [''a'' \<mapsto> coerce decimal ''2'']"
    and "fst (option_setting (\<lambda>s. s) decimal [''a:1'', ''a:2''] 0 (\<lambda>r. Map.empty)) = 0"
    using settings_last_write_wins [of "\<lambda>s. s" decimal "[''a:1'', ''a:2'']" 0 "\<lambda>r. Map.empty"]
    by blast+
  moreover have "snd (option_setting (\<lambda>s. s) decimal [''b:x, a:1; a'', ''c: false''] 0
          (\<lambda>r. Map.empty)) 0 (flag_name ''a'') = Some (coerce decimal (flag_value ''a''))"
    using settings_last_write_wins [of "\<lambda>s. s" decimal "[''b:x, a:1; a'', ''c: false'']" 0
        "\<lambda>r. Map.empty" "[''b:x'', ''a:1'']" "''a''" "[''c: false'']"] f n
    by blast
  ultimately show ?thesis using v c by simp
qed




subsection \<open>The plugin list parser\<close>

text \<open>
  Claim C6. However many \<^verbatim>\<open>--use\<close> options are given, the list that results holds
  the elements of the default followed by the pieces of each raw string, split at the
  commas and semicolons, in the order of the options; nothing is dropped, so a name given
  twice stands twice. \<^verbatim>\<open>--use "p1" --use "p1,p2"\<close> on the empty default gives
  \<^verbatim>\<open>["p1", "p1", "p2"]\<close>.
\<close>

theorem use_appends_in_order:
  "cells (snd (option_use wares cache h)) (fst (option_use wares cache h))
     = cells h cache @ concat (map (split SPLITTER) wares)
   \<and> cells (snd (option_use [''p1'', ''p1,p2''] 0 \<lparr>cells = \<lambda>r. [], fresh = 1\<rparr>))
        (fst (option_use [''p1'', ''p1,p2''] 0 \<lparr>cells = \<lambda>r. [], fresh = 1\<rparr>))
     = [''p1'', ''p1'', ''p2'']"
proof -
  have "concat (map (split SPLITTER) [''p1'', ''p1,p2'']) = [''p1'', ''p1'', ''p2'']"
    by (simp add: split_def match_at_def spaces_def SPLITTER_def)
  then show ?thesis by (simp only: option_use_cells) simp
qed

theorem use_appends_in_order_witness:
  "cells (snd (option_use [''x ; y'', ''x''] 0 \<lparr>cells = \<lambda>r. [], fresh = 1\<rparr>))
        (fst (option_use [''x ; y'', ''x''] 0 \<lparr>cells = \<lambda>r. [], fresh = 1\<rparr>))
     = [''x'', ''y'', ''x'']"
  using use_appends_in_order [of "[''x ; y'', ''x'']" 0 "\<lparr>cells = \<lambda>r. [], fresh = 1\<rparr>"]
  by (simp add: split_def match_at_def spaces_def SPLITTER_def)

text \<open>
  Claim C10. \<^verbatim>\<open>parsePlugin\<close> returns a reference that was not in use before, so not the
  accumulator's; the new array holds the accumulator's elements followed by the pieces of
  the raw string; the accumulator and every other array that existed hold what they held.
  (The settings parser, in contrast, returns the reference it was given and updates the
  object behind it.)
\<close>

theorem parsePlugin_fresh_array:
  "cache < fresh h \<longrightarrow>
     fst (parsePlugin ware cache h) \<noteq> cache
     \<and> cells (snd (parsePlugin ware cache h)) cache = cells h cache
     \<and> (\<forall>a. a < fresh h \<longrightarrow> cells (snd (parsePlugin ware cache h)) a = cells h a)
     \<and> cells (snd (parsePlugin ware cache h)) (fst (parsePlugin ware cache h))
          = cells h cache @ split SPLITTER ware
     \<and> fst (parsePlugin ware cache h) = fresh h
     \<and> fresh (snd (parsePlugin ware cache h)) = Suc (fresh h)"
  by (simp add: parsePlugin_def concat_array_def)

theorem parsePlugin_fresh_array_witness:
  "(0::nat) < fresh \<lparr>cells = (\<lambda>r. [])(0 := [''p1'']), fresh = 1\<rparr>
   \<and> fst (parsePlugin ''p1,p2'' 0 \<lparr>cells = (\<lambda>r. [])(0 := [''p1'']), fresh = 1\<rparr>) = 1
   \<and> cells (snd (parsePlugin ''p1,p2'' 0 \<lparr>cells = (\<lambda>r. [])(0 := [''p1'']), fresh = 1\<rparr>)) 0 = [''p1'']
   \<and> cells (snd (parsePlugin ''p1,p2'' 0 \<lparr>cells = (\<lambda>r. [])(0 := [''p1'']), fresh = 1\<rparr>)) 1
        = [''p1'', ''p1'', ''p2'']"
  using parsePlugin_fresh_array [of 0 "\<lparr>cells = (\<lambda>r. [])(0 := [''p1'']), fresh = 1\<rparr>" "''p1,p2''"]
  by (simp add: parsePlugin_def concat_array_def split_def match_at_def spaces_def SPLITTER_def)

subsection \<open>Facts about the process\<close>

lemma fail_simps [simp]:
  "stdout (fail H e st) = stdout st" "written (fail H e st) = written st"
  "calls (fail H e st) = calls st"
  "status (fail H e st) = (case diagnostic e of Inl r \<Rightarrow> Uncaught r | Inr shown \<Rightarrow> Exited 1)"
  "stderr (fail H e st) = stderr st @ reported H e"
  by (simp_all add: fail_def uncaught_def reported_def split: sum.splits)

lemma fail_ends: "status (fail H e st) \<noteq> Running"
  by (simp split: sum.splits)

lemma called_simps [simp]:
  "stdout (called c st) = stdout st" "written (called c st) = written st"
  "calls (called c st) = calls st @ [c]" "status (called c st) = status st"
  "stderr (called c st) = stderr st"
  by (simp_all add: called_def)

lemma debug_simps [simp]:
  "stdout (debug H f a st) = stdout st" "written (debug H f a st) = written st"
  "calls (debug H f a st) = calls st" "status (debug H f a st) = status st"
  "stderr (debug H f a st) = stderr st @ debug_lines H f a"
  by (simp_all add: debug_def)

lemma uncaught_simps [simp]:
  "stdout (uncaught H e st) = stdout st" "written (uncaught H e st) = written st"
  "calls (uncaught H e st) = calls st" "status (uncaught H e st) = Uncaught e"
  "stderr (uncaught H e st) = stderr st @ uncaught_lines H e"
  by (simp_all add: uncaught_def)

lemma start_simps [simp]:
  "stdout start = []" "written start = []" "calls start = []" "status start = Running"
  "stderr start = []"
  by (simp_all add: start_def)

lemma emit_simps [simp]:
  "stdout (emit lines st) = stdout st @ map (\<lambda>l. l @ newline) lines"
  "written (emit lines st) = written st" "calls (emit lines st) = calls st"
  "status (emit lines st) = status st" "stderr (emit lines st) = stderr st"
  unfolding emit_def
  by (induction lines arbitrary: st) (simp_all add: console_log_def)

lemma find_plugin_fails:
  "require H (find_candidate F p) = Inl e \<Longrightarrow>
   \<exists>st'. find_plugin F H p st = Inl (fail H e st') \<and> stdout st' = stdout st \<and> written st' = written st
      \<and> calls st' = calls st @ [Require (find_candidate F p)]"
  by (simp add: find_plugin_def Let_def, intro exI conjI, rule refl) simp_all

lemma find_plugin_loads:
  "require H (find_candidate F p) = Inr x \<Longrightarrow>
   \<exists>st'. find_plugin F H p st = Inr (x, st') \<and> stdout st' = stdout st \<and> written st' = written st
      \<and> status st' = status st \<and> calls st' = calls st @ [Require (find_candidate F p)]"
  by (simp add: find_plugin_def Let_def)


text \<open>Otherwise it stops at the first plugin that does not load, through \<open>fail\<close>.\<close>

lemma map_find_fails:
  "\<not> list_all (loads F H) ps \<Longrightarrow>
   \<exists>e st'. map_find F H ps st = Inl (fail H e st')
      \<and> require H (find_candidate F (hd (dropWhile (loads F H) ps))) = Inl e
      \<and> stdout st' = stdout st \<and> written st' = written st
      \<and> calls st' = calls st @ requires F (takeWhile (loads F H) ps @ [hd (dropWhile (loads F H) ps)])"
proof (induction ps arbitrary: st)
  case Nil
  then show ?case by simp
next
  case (Cons p ps)
  show ?case
  proof (cases "loads F H p")
    case False
    then obtain e where e: "require H (find_candidate F p) = Inl e"
      by (auto simp: loads_def split: sum.splits)
    obtain st1 where "find_plugin F H p st = Inl (fail H e st1)" "stdout st1 = stdout st"
      "written st1 = written st" "calls st1 = calls st @ [Require (find_candidate F p)]"
      using find_plugin_fails [OF e, of st] by blast
    then show ?thesis using False e by (auto simp: requires_def)
  next
    case True
    then obtain x where x: "require H (find_candidate F p) = Inr x"
      by (auto simp: loads_def split: sum.splits)
    obtain st1 where st1: "find_plugin F H p st = Inr (x, st1)" "stdout st1 = stdout st"
      "written st1 = written st" "status st1 = status st"
      "calls st1 = calls st @ [Require (find_candidate F p)]"
      using find_plugin_loads [OF x, of st] by blast
    from Cons.prems True have "\<not> list_all (loads F H) ps" by simp
    from Cons.IH [OF this, of st1] obtain e st2 where st2:
      "map_find F H ps st1 = Inl (fail H e st2)"
      "require H (find_candidate F (hd (dropWhile (loads F H) ps))) = Inl e"
      "stdout st2 = stdout st1" "written st2 = written st1"
      "calls st2 = calls st1 @ requires F (takeWhile (loads F H) ps @ [hd (dropWhile (loads F H) ps)])"
      by blast
    show ?thesis using True st1 st2 by (auto simp: requires_def)
  qed
qed



text \<open>The two refusals of \<open>choose_files\<close>, as \<open>main\<close> ends with them.\<close>

lemma main_expects_one_file:
  assumes "\<not> settings P" "(\<not> isTTY H \<and> args P \<noteq> []) \<or> (isTTY H \<and> 1 < length (args P))"
  shows "main F P H = fail H (Thrown None ''mdast currently expects one file.'')
                        (debug H ''Using root: `%s`'' [Text (root F)] start)"
proof -
  have "args P \<noteq> []" "isTTY H \<longrightarrow> length (args P) \<noteq> 1" using assms(2) by auto
  then show ?thesis using assms
    by (auto simp: main_def choose_files_def Let_def)
qed


subsection \<open>The project root\<close>

lemma split_string_not_Nil: "split_string sep cur s \<noteq> []"
  by (induction s arbitrary: cur) auto

lemma hd_split_string: "hd (split_string sep cur s) = cur @ takeWhile (\<lambda>c. c \<noteq> sep) s"
  by (induction s arbitrary: cur) auto

lemma join_split_string: "array_join [sep] (split_string sep cur s) = cur @ s"
proof (induction s arbitrary: cur)
  case Nil
  then show ?case by simp
next
  case (Cons c s)
  show ?case
  proof (cases "c = sep")
    case True
    obtain y ys where "split_string sep [] s = y # ys"
      using split_string_not_Nil [of sep "[]" s] by (cases "split_string sep [] s") auto
    then show ?thesis using True Cons.IH [of "[]"] by simp
  next
    case False
    then show ?thesis using Cons.IH [of "cur @ [c]"] by simp
  qed
qed

text \<open>
  With no marker anywhere the loop stops when one part is left, never with none, and the
  location is then that first part.
\<close>

lemma findRoot_loop_no_marker:
  "\<forall>p. \<not> exists F p \<Longrightarrow> parts \<noteq> [] \<Longrightarrow> location = array_join [seperator F] parts \<Longrightarrow>
     findRoot_loop F parts location = ([hd parts], hd parts)"
proof (induction F parts location rule: findRoot_loop.induct)
  case (1 F parts location)
  show ?case
  proof (cases "length parts > 1")
    case True
    then have ne: "butlast parts \<noteq> []" by (cases parts rule: rev_cases) auto
    have hd: "hd (butlast parts) = hd parts" using True by (cases parts) auto
    have "findRoot_loop F (butlast parts) (array_join [seperator F] (butlast parts))
          = ([hd (butlast parts)], hd (butlast parts))"
      using "1.IH" [OF _ "1.prems"(1) ne] True "1.prems"(1) by simp
    then show ?thesis using True "1.prems"(1) hd by (subst findRoot_loop.simps) simp
  next
    case False
    then obtain x where "parts = [x]" using "1.prems"(2) by (cases parts) auto
    then show ?thesis using "1.prems" by (subst findRoot_loop.simps) simp
  qed
qed

text \<open>
  So without a marker \<^verbatim>\<open>findRoot\<close> returns what stands before the first separator of
  the working directory: the empty string for \<^verbatim>\<open>/a/b\<close>. With the marker in the working
  directory it returns the working directory, and with the marker in a directory above,
  that directory.
\<close>

lemma findRoot_without_marker:
  "\<forall>p. \<not> exists F p \<Longrightarrow> findRoot F = takeWhile (\<lambda>c. c \<noteq> seperator F) (cwd F)"
  using findRoot_loop_no_marker [of F "split_string (seperator F) [] (cwd F)" "cwd F"]
  by (simp add: findRoot_def split_string_not_Nil join_split_string hd_split_string)

lemma findRoot_marker_here:
  "exists F (join F [cwd F, ''package.json'']) \<Longrightarrow> findRoot F = cwd F"
  by (simp add: findRoot_def findRoot_loop.simps split_string_not_Nil)

lemma findRoot_marker_above:
  "findRoot (posix ''/a/b/c/d'' (\<lambda>p. p = ''/a/package.json'')) = ''/a''"
  by (simp add: findRoot_def posix_def findRoot_loop.simps posix_join_def)

text \<open>
  Claim C2 says that \<^verbatim>\<open>findRoot\<close> returns the start directory when no marker is found
  up to the root of the file system. The last line of the function,
  \<^verbatim>\<open>return parts.length ? location : cwd\<close>, is written for that, but the loop stops
  while one part is left, so \<^verbatim>\<open>parts.length\<close> is never 0: started in \<^verbatim>\<open>/a/b\<close> with
  no \<^verbatim>\<open>package.json\<close> anywhere, the function returns the empty string.
\<close>

theorem findRoot_no_marker_example:
  "findRoot (posix ''/a/b'' (\<lambda>p. False)) = ''''
   \<and> findRoot (posix ''/a/b'' (\<lambda>p. False)) \<noteq> cwd (posix ''/a/b'' (\<lambda>p. False))"
  by (simp add: findRoot_def posix_def findRoot_loop.simps)

subsection \<open>Finding and loading a plugin\<close>

text \<open>
  Claim C3. \<^verbatim>\<open>find\<close> chooses among four locations, the first that applies: the
  identifier resolved against the project root, when that path or that path with
  \<^verbatim>\<open>.js\<close> exists; else the identifier under \<^verbatim>\<open>node_modules\<close> of the project root,
  when it exists; else the identifier under \<^verbatim>\<open>node_modules\<close> of the working directory,
  when it exists; else the bare identifier, left to the host's module search. So a local
  path wins over a package of the same name. The location chosen is the one, and the only
  one, handed to \<^verbatim>\<open>require\<close>, and what it loads is the result.
\<close>

theorem plugin_search_order:
  "(let local = resolve F [root F, pathlike];
        npm = resolve F [root F, ''node_modules'', pathlike];
        current = resolve F [cwd F, ''node_modules'', pathlike]
    in (exists F local \<or> exists F (local @ ''.js'') \<longrightarrow> find_candidate F pathlike = local)
     \<and> (\<not> exists F local \<and> \<not> exists F (local @ ''.js'') \<and> exists F npm \<longrightarrow>
          find_candidate F pathlike = npm)
     \<and> (\<not> exists F local \<and> \<not> exists F (local @ ''.js'') \<and> \<not> exists F npm
          \<and> exists F current \<longrightarrow>
          find_candidate F pathlike = current)
     \<and> (\<not> exists F local \<and> \<not> exists F (local @ ''.js'') \<and> \<not> exists F npm
          \<and> \<not> exists F current \<longrightarrow>
          find_candidate F pathlike = pathlike))
   \<and> calls (state_after (find_plugin F H pathlike st)) = calls st @ [Require (find_candidate F pathlike)]
   \<and> (\<forall>loaded. require H (find_candidate F pathlike) = Inr loaded \<longrightarrow>
        (\<exists>st'. find_plugin F H pathlike st = Inr (loaded, st')))"
  by (auto simp: find_candidate_def find_plugin_def state_after_def Let_def split: sum.splits)

text \<open>
  In \<^verbatim>\<open>/w\<close>, the project root, both \<^verbatim>\<open>plug.js\<close> and \<^verbatim>\<open>node_modules/plug\<close> exist:
  the local path is chosen and required.
\<close>

lemma both_exist_root: "root both_exist = ''/w''"
  by (simp add: root_def findRoot_def both_exist_def posix_def findRoot_loop.simps posix_join_def)

lemma both_exist_paths:
  "resolve both_exist [''/w'', ''plug''] = ''/w/plug''"
  "resolve both_exist [''/w'', ''node_modules'', ''plug''] = ''/w/node_modules/plug''"
  "exists both_exist ''/w/plug.js''" "exists both_exist ''/w/node_modules/plug''"
  "\<not> exists both_exist ''/w/plug''" "cwd both_exist = ''/w''"
  by (simp_all add: both_exist_def posix_def posix_resolve_def)

theorem plugin_search_order_witness:
  "exists both_exist (resolve both_exist [root both_exist, ''plug''] @ ''.js'')
   \<and> exists both_exist (resolve both_exist [root both_exist, ''node_modules'', ''plug''])
   \<and> find_candidate both_exist ''plug'' = ''/w/plug''
   \<and> calls (state_after (find_plugin both_exist plain ''plug'' start)) = [Require ''/w/plug'']
   \<and> find_plugin both_exist plain ''plug'' start = Inr (''/w/plug'', called (Require ''/w/plug'') start)"
proof -
  have c: "find_candidate both_exist ''plug'' = ''/w/plug''"
    using plugin_search_order [of both_exist "''plug''" plain start]
    by (simp add: both_exist_root both_exist_paths Let_def)
  have "calls (state_after (find_plugin both_exist plain ''plug'' start)) = [Require ''/w/plug'']"
    using plugin_search_order [of both_exist "''plug''" plain start]
    by (simp add: c Let_def)
  moreover have "find_plugin both_exist plain ''plug'' start
      = Inr (''/w/plug'', called (Require ''/w/plug'') start)"
    by (simp add: find_plugin_def c plain_def debug_def Let_def)
  ultimately show ?thesis using c by (simp add: both_exist_root both_exist_paths)
qed

subsection \<open>Failures\<close>

text \<open>
  A run whose configuration resolves and one of whose plugins does not load: it calls
  \<^verbatim>\<open>fail\<close> with what \<^verbatim>\<open>require\<close> threw for the first such plugin, having written
  nothing to standard output and no file, and having required the chosen location of
  each plugin once, in order, up to that one; no other location is tried for it, the
  engine is never called, and no later chunk of standard input is processed.
\<close>

lemma plugin_load_stops_the_run:
  assumes "Configuration H (config P) (setting P) (use P) = Inr configuration"
      and "getConfiguration H configuration filename = Inr (options_settings, plugins)"
      and "pathlike \<in> set plugins"
      and "require H (find_candidate F pathlike) = Inl exception"
  shows "stdout (run F P H value filename st) = stdout st
       \<and> written (run F P H value filename st) = written st
       \<and> calls (run F P H value filename st)
           = calls st @ [Configure, GetConfiguration filename]
             @ requires F (takeWhile (loads F H) plugins @ [hd (dropWhile (loads F H) plugins)])
       \<and> (\<exists>e st'. require H (find_candidate F (hd (dropWhile (loads F H) plugins))) = Inl e
              \<and> run F P H value filename st = fail H e st')
       \<and> status (run F P H value filename st) \<noteq> Running
       \<and> (\<exists>st'. find_plugin F H pathlike st = Inl (fail H exception st')
              \<and> calls st' = calls st @ [Require (find_candidate F pathlike)])
       \<and> (filename = None \<longrightarrow>
            on_data F P H (value # later) st = run F P H value filename st)"
proof -
  have "\<not> loads F H pathlike" using assms(4) by (simp add: loads_def)
  then have bad: "\<not> list_all (loads F H) plugins" using assms(3) by (auto simp: list_all_iff)
  let ?st0 = "debug H ''Using settings `%j`'' [Settings options_settings]
               (called (GetConfiguration filename) (called Configure st))"
  obtain e st' where m: "map_find F H plugins ?st0 = Inl (fail H e st')"
    "require H (find_candidate F (hd (dropWhile (loads F H) plugins))) = Inl e"
    "stdout st' = stdout ?st0" "written st' = written ?st0"
    "calls st' = calls ?st0
       @ requires F (takeWhile (loads F H) plugins @ [hd (dropWhile (loads F H) plugins)])"
    using map_find_fails [OF bad, of ?st0] by blast
  have r: "run F P H value filename st = fail H e st'"
    using assms(1,2) m(1) by (simp add: run_def)
  have ended: "status (run F P H value filename st) \<noteq> Running"
    unfolding r by (rule fail_ends)
  have chunk: "on_data F P H (value # later) st = run F P H value filename st"
    if n: "filename = None"
    using ended n by (simp add: Let_def)
  have frame: "stdout (run F P H value filename st) = stdout st"
    "written (run F P H value filename st) = written st"
    "calls (run F P H value filename st)
           = calls st @ [Configure, GetConfiguration filename]
             @ requires F (takeWhile (loads F H) plugins @ [hd (dropWhile (loads F H) plugins)])"
    using m(3-) by (simp_all add: r)
  have which: "\<exists>e st'. require H (find_candidate F (hd (dropWhile (loads F H) plugins))) = Inl e
              \<and> run F P H value filename st = fail H e st'"
    using m(2) r by blast
  show ?thesis
    using frame which ended find_plugin_fails [OF assms(4), of st] chunk by blast
qed

lemma broken_candidates:
  "find_candidate both_exist ''first'' = ''first''"
  "find_candidate both_exist ''plug'' = ''/w/plug''"
  by (simp_all add: find_candidate_def both_exist_root Let_def)
    (simp_all add: both_exist_def posix_def posix_resolve_def)

text \<open>
  Where the local \<^verbatim>\<open>plug.js\<close> throws an error with a stack, the run ends with
  \<^verbatim>\<open>process.exit(1)\<close> after that stack has gone to standard error. The bare name
  \<^verbatim>\<open>plug\<close> would load, and is not tried; the plugin after it is not loaded either.
\<close>

lemma plugin_throwing_error_example:
  "require broken (find_candidate both_exist ''plug'') = Inl (Thrown (Some ''Error: broken'') ''Error: broken'')
   \<and> require broken ''plug'' = Inr ''plug''
   \<and> status (run both_exist with_plugins broken ''text'' None start) = Exited 1
   \<and> stderr (run both_exist with_plugins broken ''text'' None start) = [''Error: broken'' @ newline]
   \<and> stdout (run both_exist with_plugins broken ''text'' None start) = []
   \<and> written (run both_exist with_plugins broken ''text'' None start) = []
   \<and> calls (run both_exist with_plugins broken ''text'' None start)
        = [Configure, GetConfiguration None, Require ''first'', Require ''/w/plug'']"
  by (simp add: run_def find_plugin_def broken_candidates Let_def reported_def
      broken_def plain_def with_plugins_def bare_def)

text \<open>
  Claim C4 says that the run ends with exit code 1 whenever the chosen location of a
  plugin fails to load, and the comment on \<^verbatim>\<open>fail\<close> says the same of \<^verbatim>\<open>fail\<close>: "Fail
  with \<^verbatim>\<open>message\<close> to stderr and exit with \<^verbatim>\<open>1\<close>". The program does not do this for a
  plugin whose module runs \<^verbatim>\<open>throw null\<close>: the handler in \<^verbatim>\<open>find\<close> passes \<^verbatim>\<open>null\<close>
  to \<^verbatim>\<open>fail\<close>, reading \<^verbatim>\<open>null.stack\<close> throws a \<^verbatim>\<open>TypeError\<close>, so \<^verbatim>\<open>fail\<close> writes
  nothing and never reaches \<^verbatim>\<open>process.exit(1)\<close>. The \<^verbatim>\<open>TypeError\<close> leaves the
  program uncaught and the process ends with the host's status for that, 8 on node 0.10.
  The other parts of the claim hold here too: nothing is written to standard output or
  to a file, and no other location is tried.
\<close>

theorem plugin_throwing_null_example:
  "require throws_null (find_candidate both_exist ''plug'') = Inl (Unprintable no_stack_of_null)
   \<and> status (run both_exist with_plugins throws_null ''text'' None start) = Uncaught no_stack_of_null
   \<and> status (run both_exist with_plugins throws_null ''text'' None start) \<noteq> Exited 1
   \<and> exit_code throws_null (status (run both_exist with_plugins throws_null ''text'' None start)) = 8
   \<and> stderr (run both_exist with_plugins throws_null ''text'' None start)
        = uncaught_lines throws_null no_stack_of_null
   \<and> stdout (run both_exist with_plugins throws_null ''text'' None start) = []
   \<and> written (run both_exist with_plugins throws_null ''text'' None start) = []
   \<and> calls (run both_exist with_plugins throws_null ''text'' None start)
        = [Configure, GetConfiguration None, Require ''first'', Require ''/w/plug'']"
  by (simp add: run_def find_plugin_def broken_candidates Let_def reported_def
      throws_null_def plain_def with_plugins_def bare_def)

text \<open>
  Claim C8, as the code has it. When \<^verbatim>\<open>--settings\<close> is not given, standard input is
  piped and a file argument is supplied, the program ends with \<^verbatim>\<open>process.exit(1)\<close>
  after writing \<^verbatim>\<open>mdast currently expects one file.\<close> to standard error; it has called
  no collaborator (no configuration, no plugin, no engine, no file is read), and has
  written nothing to standard output and no file.
\<close>

theorem piped_input_with_file_refused:
  "\<not> settings P \<and> \<not> isTTY H \<and> args P \<noteq> [] \<longrightarrow>
     status (main F P H) = Exited 1
     \<and> calls (main F P H) = []
     \<and> stdout (main F P H) = []
     \<and> written (main F P H) = []
     \<and> stderr (main F P H)
          = debug_lines H ''Using root: `%s`'' [Text (root F)]
            @ [''mdast currently expects one file.'' @ newline]"
proof (intro impI, elim conjE)
  assume a: "\<not> settings P" "\<not> isTTY H" "args P \<noteq> []"
  then have c: "(\<not> isTTY H \<and> args P \<noteq> []) \<or> (isTTY H \<and> 1 < length (args P))" by simp
  show "status (main F P H) = Exited 1
     \<and> calls (main F P H) = []
     \<and> stdout (main F P H) = []
     \<and> written (main F P H) = []
     \<and> stderr (main F P H)
          = debug_lines H ''Using root: `%s`'' [Text (root F)]
            @ [''mdast currently expects one file.'' @ newline]"
    by (simp add: main_expects_one_file [OF a(1) c] reported_def)
qed

theorem piped_input_with_file_refused_witness:
  "\<not> settings with_file \<and> \<not> isTTY piped \<and> args with_file \<noteq> []
   \<and> status (main both_exist with_file piped) = Exited 1
   \<and> calls (main both_exist with_file piped) = []
   \<and> stdout (main both_exist with_file piped) = []
   \<and> stderr (main both_exist with_file piped) = [''mdast currently expects one file.'' @ newline]"
  using piped_input_with_file_refused [of with_file piped both_exist]
  by (simp add: with_file_def piped_def bare_def plain_def)

text \<open>
  The claim as it was stated fails when \<^verbatim>\<open>--settings\<close> is given as well: the program
  prints the settings and ends normally, with status 0 and nothing on standard error.
\<close>

theorem settings_option_comes_first:
  "\<not> isTTY piped \<and> args (with_file\<lparr>settings := True\<rparr>) = [''file.md'']
   \<and> status (main both_exist (with_file\<lparr>settings := True\<rparr>) piped) = Running
   \<and> exit_status (status (main both_exist (with_file\<lparr>settings := True\<rparr>) piped)) = Some 0
   \<and> stderr (main both_exist (with_file\<lparr>settings := True\<rparr>) piped) = []"
  by (simp add: main_def with_file_def piped_def bare_def plain_def)







end
